theory Spec2Isabelle
  imports Main "HOL-Library.Multiset"
begin

unbundle bit_operations_syntax

section \<open>Bytes, windows and indices\<close>

text \<open>
  The package \<^verbatim>\<open>util\<close> of goldmark works on Go byte slices (\<^verbatim>\<open>[]byte\<close>) with
  indices of Go's type \<^verbatim>\<open>int\<close>. A byte is a \<^typ>\<open>char\<close> (256 values), a slice is a
  list, and an index is an \<^typ>\<open>int\<close>: every index the code computes is bounded by the
  length of a slice, so the 64-bit range is never left, and the sentinel \<open>-1\<close> is a value
  of the type. Go panics on an index outside a slice; where the code can reach such an
  index the model returns \<open>Inl IndexOutOfRange\<close>, and \<open>idx\<close> is only used under the
  guard the source has.
\<close>

type_synonym byte = char

datatype panic = IndexOutOfRange

definition len :: "'a list \<Rightarrow> int" where
  "len xs = int (length xs)"

definition idx :: "'a list \<Rightarrow> int \<Rightarrow> 'a" where
  "idx xs i = xs ! nat i"

text \<open>The Go slice expression \<^verbatim>\<open>xs[lo:hi]\<close>.\<close>

definition subslice :: "'a list \<Rightarrow> int \<Rightarrow> int \<Rightarrow> 'a list" where
  "subslice xs lo hi = take (nat (hi - lo)) (drop (nat lo) xs)"

text \<open>The numeric value of a byte, the index into the 256-entry tables.\<close>

definition byte_val :: "byte \<Rightarrow> nat" where
  "byte_val c = of_char c"

section \<open>Character classification tables\<close>

text \<open>
  The 256-entry tables of the source, entry for entry, written in rows of eight: row
  \<open>k\<close> holds the entries of the bytes \<open>8k\<close> to \<open>8k + 7\<close>.
\<close>

definition spaceTable :: "int list" where
  "spaceTable =
     [0, 0, 0, 0, 0, 0, 0, 0] @ [0, 1, 1, 1, 1, 1, 0, 0] @ [0, 0, 0, 0, 0, 0, 0, 0] @ [0, 0, 0, 0, 0, 0, 0, 0] @
     [1, 0, 0, 0, 0, 0, 0, 0] @ [0, 0, 0, 0, 0, 0, 0, 0] @ [0, 0, 0, 0, 0, 0, 0, 0] @ [0, 0, 0, 0, 0, 0, 0, 0] @
     [0, 0, 0, 0, 0, 0, 0, 0] @ [0, 0, 0, 0, 0, 0, 0, 0] @ [0, 0, 0, 0, 0, 0, 0, 0] @ [0, 0, 0, 0, 0, 0, 0, 0] @
     [0, 0, 0, 0, 0, 0, 0, 0] @ [0, 0, 0, 0, 0, 0, 0, 0] @ [0, 0, 0, 0, 0, 0, 0, 0] @ [0, 0, 0, 0, 0, 0, 0, 0] @
     [0, 0, 0, 0, 0, 0, 0, 0] @ [0, 0, 0, 0, 0, 0, 0, 0] @ [0, 0, 0, 0, 0, 0, 0, 0] @ [0, 0, 0, 0, 0, 0, 0, 0] @
     [0, 0, 0, 0, 0, 0, 0, 0] @ [0, 0, 0, 0, 0, 0, 0, 0] @ [0, 0, 0, 0, 0, 0, 0, 0] @ [0, 0, 0, 0, 0, 0, 0, 0] @
     [0, 0, 0, 0, 0, 0, 0, 0] @ [0, 0, 0, 0, 0, 0, 0, 0] @ [0, 0, 0, 0, 0, 0, 0, 0] @ [0, 0, 0, 0, 0, 0, 0, 0] @
     [0, 0, 0, 0, 0, 0, 0, 0] @ [0, 0, 0, 0, 0, 0, 0, 0] @ [0, 0, 0, 0, 0, 0, 0, 0] @ [0, 0, 0, 0, 0, 0, 0, 0]"

definition punctTable :: "int list" where
  "punctTable =
     [0, 0, 0, 0, 0, 0, 0, 0] @ [0, 0, 0, 0, 0, 0, 0, 0] @ [0, 0, 0, 0, 0, 0, 0, 0] @ [0, 0, 0, 0, 0, 0, 0, 0] @
     [0, 1, 1, 1, 1, 1, 1, 1] @ [1, 1, 1, 1, 1, 1, 1, 1] @ [0, 0, 0, 0, 0, 0, 0, 0] @ [0, 0, 1, 1, 1, 1, 1, 1] @
     [1, 0, 0, 0, 0, 0, 0, 0] @ [0, 0, 0, 0, 0, 0, 0, 0] @ [0, 0, 0, 0, 0, 0, 0, 0] @ [0, 0, 0, 1, 1, 1, 1, 1] @
     [1, 0, 0, 0, 0, 0, 0, 0] @ [0, 0, 0, 0, 0, 0, 0, 0] @ [0, 0, 0, 0, 0, 0, 0, 0] @ [0, 0, 0, 1, 1, 1, 1, 0] @
     [0, 0, 0, 0, 0, 0, 0, 0] @ [0, 0, 0, 0, 0, 0, 0, 0] @ [0, 0, 0, 0, 0, 0, 0, 0] @ [0, 0, 0, 0, 0, 0, 0, 0] @
     [0, 0, 0, 0, 0, 0, 0, 0] @ [0, 0, 0, 0, 0, 0, 0, 0] @ [0, 0, 0, 0, 0, 0, 0, 0] @ [0, 0, 0, 0, 0, 0, 0, 0] @
     [0, 0, 0, 0, 0, 0, 0, 0] @ [0, 0, 0, 0, 0, 0, 0, 0] @ [0, 0, 0, 0, 0, 0, 0, 0] @ [0, 0, 0, 0, 0, 0, 0, 0] @
     [0, 0, 0, 0, 0, 0, 0, 0] @ [0, 0, 0, 0, 0, 0, 0, 0] @ [0, 0, 0, 0, 0, 0, 0, 0] @ [0, 0, 0, 0, 0, 0, 0, 0]"

text \<open>\<^verbatim>\<open>a-zA-Z0-9, ;/?:@&=+$,-_.!~*'()#\<close>\<close>

definition urlEscapeTable :: "int list" where
  "urlEscapeTable =
     [0, 0, 0, 0, 0, 0, 0, 0] @ [0, 0, 0, 0, 0, 0, 0, 0] @ [0, 0, 0, 0, 0, 0, 0, 0] @ [0, 0, 0, 0, 0, 0, 0, 0] @
     [0, 1, 0, 1, 1, 0, 1, 1] @ [1, 1, 1, 1, 1, 1, 1, 1] @ [1, 1, 1, 1, 1, 1, 1, 1] @ [1, 1, 1, 1, 0, 1, 0, 1] @
     [1, 1, 1, 1, 1, 1, 1, 1] @ [1, 1, 1, 1, 1, 1, 1, 1] @ [1, 1, 1, 1, 1, 1, 1, 1] @ [1, 1, 1, 0, 0, 0, 0, 1] @
     [0, 1, 1, 1, 1, 1, 1, 1] @ [1, 1, 1, 1, 1, 1, 1, 1] @ [1, 1, 1, 1, 1, 1, 1, 1] @ [1, 1, 1, 0, 0, 0, 1, 0] @
     [0, 0, 0, 0, 0, 0, 0, 0] @ [0, 0, 0, 0, 0, 0, 0, 0] @ [0, 0, 0, 0, 0, 0, 0, 0] @ [0, 0, 0, 0, 0, 0, 0, 0] @
     [0, 0, 0, 0, 0, 0, 0, 0] @ [0, 0, 0, 0, 0, 0, 0, 0] @ [0, 0, 0, 0, 0, 0, 0, 0] @ [0, 0, 0, 0, 0, 0, 0, 0] @
     [0, 0, 0, 0, 0, 0, 0, 0] @ [0, 0, 0, 0, 0, 0, 0, 0] @ [0, 0, 0, 0, 0, 0, 0, 0] @ [0, 0, 0, 0, 0, 0, 0, 0] @
     [0, 0, 0, 0, 0, 0, 0, 0] @ [0, 0, 0, 0, 0, 0, 0, 0] @ [0, 0, 0, 0, 0, 0, 0, 0] @ [0, 0, 0, 0, 0, 0, 0, 0]"

definition utf8lenTable :: "int list" where
  "utf8lenTable =
     [1, 1, 1, 1, 1, 1, 1, 1] @ [1, 1, 1, 1, 1, 1, 1, 1] @ [1, 1, 1, 1, 1, 1, 1, 1] @ [1, 1, 1, 1, 1, 1, 1, 1] @
     [1, 1, 1, 1, 1, 1, 1, 1] @ [1, 1, 1, 1, 1, 1, 1, 1] @ [1, 1, 1, 1, 1, 1, 1, 1] @ [1, 1, 1, 1, 1, 1, 1, 1] @
     [1, 1, 1, 1, 1, 1, 1, 1] @ [1, 1, 1, 1, 1, 1, 1, 1] @ [1, 1, 1, 1, 1, 1, 1, 1] @ [1, 1, 1, 1, 1, 1, 1, 1] @
     [1, 1, 1, 1, 1, 1, 1, 1] @ [1, 1, 1, 1, 1, 1, 1, 1] @ [1, 1, 1, 1, 1, 1, 1, 1] @ [1, 1, 1, 1, 1, 1, 1, 1] @
     [99, 99, 99, 99, 99, 99, 99, 99] @ [99, 99, 99, 99, 99, 99, 99, 99] @ [99, 99, 99, 99, 99, 99, 99, 99] @ [99, 99, 99, 99, 99, 99, 99, 99] @
     [99, 99, 99, 99, 99, 99, 99, 99] @ [99, 99, 99, 99, 99, 99, 99, 99] @ [99, 99, 99, 99, 99, 99, 99, 99] @ [99, 99, 99, 99, 99, 99, 99, 99] @
     [99, 99, 2, 2, 2, 2, 2, 2] @ [2, 2, 2, 2, 2, 2, 2, 2] @ [2, 2, 2, 2, 2, 2, 2, 2] @ [2, 2, 2, 2, 2, 2, 2, 2] @
     [3, 3, 3, 3, 3, 3, 3, 3] @ [3, 3, 3, 3, 3, 3, 3, 3] @ [4, 4, 4, 4, 4, 4, 4, 4] @ [99, 99, 99, 99, 99, 99, 99, 99]"

definition urlTable :: "nat list" where
  "urlTable =
     [0, 0, 0, 0, 0, 0, 0, 0] @ [0, 0, 0, 0, 0, 0, 0, 0] @ [0, 0, 0, 0, 0, 0, 0, 0] @ [0, 0, 0, 0, 0, 0, 0, 0] @
     [0, 1, 1, 1, 1, 1, 1, 1] @ [1, 1, 1, 5, 1, 5, 5, 1] @ [5, 5, 5, 5, 5, 5, 5, 5] @ [5, 5, 1, 1, 0, 1, 0, 1] @
     [1, 7, 7, 7, 7, 7, 7, 7] @ [7, 7, 7, 7, 7, 7, 7, 7] @ [7, 7, 7, 7, 7, 7, 7, 7] @ [7, 7, 7, 1, 1, 1, 1, 1] @
     [1, 7, 7, 7, 7, 7, 7, 7] @ [7, 7, 7, 7, 7, 7, 7, 7] @ [7, 7, 7, 7, 7, 7, 7, 7] @ [7, 7, 7, 1, 1, 1, 1, 1] @
     [1, 1, 1, 1, 1, 1, 1, 1] @ [1, 1, 1, 1, 1, 1, 1, 1] @ [1, 1, 1, 1, 1, 1, 1, 1] @ [1, 1, 1, 1, 1, 1, 1, 1] @
     [1, 1, 1, 1, 1, 1, 1, 1] @ [1, 1, 1, 1, 1, 1, 1, 1] @ [1, 1, 1, 1, 1, 1, 1, 1] @ [1, 1, 1, 1, 1, 1, 1, 1] @
     [1, 1, 1, 1, 1, 1, 1, 1] @ [1, 1, 1, 1, 1, 1, 1, 1] @ [1, 1, 1, 1, 1, 1, 1, 1] @ [1, 1, 1, 1, 1, 1, 1, 1] @
     [1, 1, 1, 1, 1, 1, 1, 1] @ [1, 1, 1, 1, 1, 1, 1, 1] @ [1, 1, 1, 1, 1, 1, 1, 1] @ [1, 1, 1, 1, 1, 1, 1, 1]"

definition htmlEscapeTable :: "byte list option list" where
  "htmlEscapeTable =
     [None, None, None, None, None, None, None, None] @ [None, None, None, None, None, None, None, None] @
     [None, None, None, None, None, None, None, None] @ [None, None, None, None, None, None, None, None] @
     [None, None, Some ''&quot;'', None, None, None, Some ''&amp;'', None] @ [None, None, None, None, None, None, None, None] @
     [None, None, None, None, None, None, None, None] @ [None, None, None, None, Some ''&lt;'', None, Some ''&gt;'', None] @
     [None, None, None, None, None, None, None, None] @ [None, None, None, None, None, None, None, None] @
     [None, None, None, None, None, None, None, None] @ [None, None, None, None, None, None, None, None] @
     [None, None, None, None, None, None, None, None] @ [None, None, None, None, None, None, None, None] @
     [None, None, None, None, None, None, None, None] @ [None, None, None, None, None, None, None, None] @
     [None, None, None, None, None, None, None, None] @ [None, None, None, None, None, None, None, None] @
     [None, None, None, None, None, None, None, None] @ [None, None, None, None, None, None, None, None] @
     [None, None, None, None, None, None, None, None] @ [None, None, None, None, None, None, None, None] @
     [None, None, None, None, None, None, None, None] @ [None, None, None, None, None, None, None, None] @
     [None, None, None, None, None, None, None, None] @ [None, None, None, None, None, None, None, None] @
     [None, None, None, None, None, None, None, None] @ [None, None, None, None, None, None, None, None] @
     [None, None, None, None, None, None, None, None] @ [None, None, None, None, None, None, None, None] @
     [None, None, None, None, None, None, None, None] @ [None, None, None, None, None, None, None, None]"

definition IsPunct :: "byte \<Rightarrow> bool" where
  "IsPunct c = (punctTable ! byte_val c = 1)"

definition IsSpace :: "byte \<Rightarrow> bool" where
  "IsSpace c = (spaceTable ! byte_val c = 1)"

definition IsNumeric :: "byte \<Rightarrow> bool" where
  "IsNumeric c = (byte_val c \<ge> byte_val CHR ''0'' \<and> byte_val c \<le> byte_val CHR ''9'')"

definition IsHexDecimal :: "byte \<Rightarrow> bool" where
  "IsHexDecimal c =
     (byte_val c \<ge> byte_val CHR ''0'' \<and> byte_val c \<le> byte_val CHR ''9''
      \<or> byte_val c \<ge> byte_val CHR ''a'' \<and> byte_val c \<le> byte_val CHR ''f''
      \<or> byte_val c \<ge> byte_val CHR ''A'' \<and> byte_val c \<le> byte_val CHR ''F'')"

definition IsAlphaNumeric :: "byte \<Rightarrow> bool" where
  "IsAlphaNumeric c =
     (byte_val c \<ge> byte_val CHR ''a'' \<and> byte_val c \<le> byte_val CHR ''z''
      \<or> byte_val c \<ge> byte_val CHR ''A'' \<and> byte_val c \<le> byte_val CHR ''Z''
      \<or> byte_val c \<ge> byte_val CHR ''0'' \<and> byte_val c \<le> byte_val CHR ''9'')"

section \<open>The copy-on-write buffer\<close>

record CopyOnWriteBuffer =
  buffer :: "byte list"
  copied :: bool

definition NewCopyOnWriteBuffer :: "byte list \<Rightarrow> CopyOnWriteBuffer" where
  "NewCopyOnWriteBuffer b = \<lparr>buffer = b, copied = False\<rparr>"

text \<open>
  \<^verbatim>\<open>Write\<close>: the first write replaces the borrowed window by a fresh empty buffer
  (\<^verbatim>\<open>make([]byte, 0, len+20)\<close>) and sets the flag; every write appends.
\<close>

definition Write :: "CopyOnWriteBuffer \<Rightarrow> byte list \<Rightarrow> CopyOnWriteBuffer" where
  "Write b v =
     (let b1 = (if \<not> copied b then b\<lparr>buffer := [], copied := True\<rparr> else b)
      in b1\<lparr>buffer := buffer b1 @ v\<rparr>)"

definition WriteByte :: "CopyOnWriteBuffer \<Rightarrow> byte \<Rightarrow> CopyOnWriteBuffer" where
  "WriteByte b c =
     (let b1 = (if \<not> copied b then b\<lparr>buffer := [], copied := True\<rparr> else b)
      in b1\<lparr>buffer := buffer b1 @ [c]\<rparr>)"

definition Bytes :: "CopyOnWriteBuffer \<Rightarrow> byte list" where
  "Bytes b = buffer b"

definition IsCopied :: "CopyOnWriteBuffer \<Rightarrow> bool" where
  "IsCopied b = copied b"

section \<open>EscapeHTML\<close>

text \<open>
  The loop of \<^verbatim>\<open>EscapeHTML\<close> with its variables \<open>i\<close>, \<open>n\<close> and the buffer; it returns
  \<open>n\<close> and the buffer as the loop leaves them.
\<close>

function EscapeHTML_loop ::
  "byte list \<Rightarrow> int \<Rightarrow> int \<Rightarrow> CopyOnWriteBuffer \<Rightarrow> int \<times> CopyOnWriteBuffer" where
  "EscapeHTML_loop v i n cob =
     (if i < len v then
        (case htmlEscapeTable ! byte_val (idx v i) of
           Some escaped \<Rightarrow>
             EscapeHTML_loop v (i + 1) (i + 1) (Write (Write cob (subslice v n i)) escaped)
         | None \<Rightarrow> EscapeHTML_loop v (i + 1) n cob)
      else (n, cob))"
  by pat_completeness auto
termination
  by (relation "measure (\<lambda>(v, i, n, cob). nat (len v - i))") auto

text \<open>The buffer \<^verbatim>\<open>EscapeHTML\<close> ends with, and the bytes it returns.\<close>

definition EscapeHTML_cob :: "byte list \<Rightarrow> CopyOnWriteBuffer" where
  "EscapeHTML_cob v =
     (case EscapeHTML_loop v 0 0 (NewCopyOnWriteBuffer v) of
        (n, cob) \<Rightarrow> if IsCopied cob then Write cob (subslice v n (len v)) else cob)"

definition EscapeHTML :: "byte list \<Rightarrow> byte list" where
  "EscapeHTML v = Bytes (EscapeHTML_cob v)"

section \<open>Scanning loops\<close>

text \<open>
  Bytes that cannot stand in a string literal of the theory: backslash, double quote,
  single quote and backtick.
\<close>

abbreviation backslash :: byte where "backslash \<equiv> CHR 0x5C"
abbreviation dquote :: byte where "dquote \<equiv> CHR 0x22"
abbreviation squote :: byte where "squote \<equiv> CHR 0x27"
abbreviation backtick :: byte where "backtick \<equiv> CHR 0x60"

text \<open>
  The loop \<^verbatim>\<open>for ; i < l && p(b[i]); i++ {}\<close>, which the source writes out wherever it
  skips a run of bytes (also in the form that breaks at the first byte failing \<open>p\<close>).
\<close>

function skip_while :: "(byte \<Rightarrow> bool) \<Rightarrow> byte list \<Rightarrow> int \<Rightarrow> int" where
  "skip_while p b i = (if i < len b \<and> p (idx b i) then skip_while p b (i + 1) else i)"
  by pat_completeness auto
termination
  by (relation "measure (\<lambda>(p, b, i). nat (len b - i))") auto

function ReadWhile_loop ::
  "byte list \<Rightarrow> int \<Rightarrow> int \<Rightarrow> (byte \<Rightarrow> bool) \<Rightarrow> bool \<Rightarrow> int \<times> bool" where
  "ReadWhile_loop source j hi pred ok =
     (if j < hi then
        (if pred (idx source j) then ReadWhile_loop source (j + 1) hi pred True else (j, ok))
      else (j, ok))"
  by pat_completeness auto
termination
  by (relation "measure (\<lambda>(source, j, hi, pred, ok). nat (hi - j))") auto

definition ReadWhile :: "byte list \<Rightarrow> int \<times> int \<Rightarrow> (byte \<Rightarrow> bool) \<Rightarrow> int \<times> bool" where
  "ReadWhile source index pred = ReadWhile_loop source (fst index) (snd index) pred False"

definition IsEscapedPunctuation :: "byte list \<Rightarrow> int \<Rightarrow> bool" where
  "IsEscapedPunctuation source i =
     (idx source i = backslash \<and> i < len source - 1 \<and> IsPunct (idx source (i + 1)))"

fun IsBlank :: "byte list \<Rightarrow> bool" where
  "IsBlank [] = True"
| "IsBlank (b # bs) = (if IsSpace b then IsBlank bs else False)"

section \<open>FindClosure\<close>

text \<open>
  The inner loops of \<^verbatim>\<open>FindClosure\<close> that run over backticks: from \<open>i\<close> they count the
  backticks into \<open>cnt\<close> and stop at the first other byte, leaving \<open>i\<close> on that byte.
\<close>

function backtick_run :: "byte list \<Rightarrow> int \<Rightarrow> int \<Rightarrow> int \<times> int" where
  "backtick_run bs i cnt =
     (if i < len bs then
        (if idx bs i = backtick then backtick_run bs (i + 1) (cnt + 1) else (i, cnt))
      else (i, cnt))"
  by pat_completeness auto
termination
  by (relation "measure (\<lambda>(bs, i, cnt). nat (len bs - i))") auto

declare backtick_run.simps [simp del]

lemma backtick_run_ge: "(i1, c) = backtick_run bs i cnt \<Longrightarrow> i \<le> i1"
proof (induction bs i cnt rule: backtick_run.induct)
  case (1 bs i cnt)
  show ?case
  proof (cases "i < len bs \<and> idx bs i = backtick")
    case True
    with "1.prems" have "(i1, c) = backtick_run bs (i + 1) (cnt + 1)"
      by (simp add: backtick_run.simps [of bs i cnt])
    with "1.IH" True show ?thesis by force
  next
    case False
    with "1.prems" show ?thesis
      by (auto simp add: backtick_run.simps [of bs i cnt] split: if_splits)
  qed
qed

text \<open>
  The main loop of \<^verbatim>\<open>FindClosure\<close> with its variables \<open>i\<close>, \<open>opened\<close> and
  \<open>codeSpanOpener\<close>. After either backtick loop the code falls through to the \<^verbatim>\<open>i++\<close>
  at the end of the loop body, as every branch but the escaped pair does.
\<close>

function FindClosure_loop ::
  "byte list \<Rightarrow> byte \<Rightarrow> byte \<Rightarrow> bool \<Rightarrow> bool \<Rightarrow> int \<Rightarrow> int \<Rightarrow> int \<Rightarrow> int" where
  "FindClosure_loop bs opener closure codeSpan allowNesting i opened codeSpanOpener =
     (if i < len bs then
        (let c = idx bs i in
         if codeSpan \<and> codeSpanOpener \<noteq> 0 \<and> c = backtick then
           (case backtick_run bs i 0 of
              (i1, codeSpanCloser) \<Rightarrow>
                FindClosure_loop bs opener closure codeSpan allowNesting (i1 + 1) opened
                  (if codeSpanCloser = codeSpanOpener then 0 else codeSpanOpener))
         else if c = backslash \<and> i < len bs - 1 \<and> IsPunct (idx bs (i + 1)) then
           FindClosure_loop bs opener closure codeSpan allowNesting (i + 2) opened codeSpanOpener
         else if codeSpan \<and> codeSpanOpener = 0 \<and> c = backtick then
           (case backtick_run bs i codeSpanOpener of
              (i1, codeSpanOpener1) \<Rightarrow>
                FindClosure_loop bs opener closure codeSpan allowNesting (i1 + 1) opened
                  codeSpanOpener1)
         else if (codeSpan \<and> codeSpanOpener = 0) \<or> \<not> codeSpan then
           (if c = closure then
              (if opened - 1 = 0 then i
               else FindClosure_loop bs opener closure codeSpan allowNesting (i + 1)
                      (opened - 1) codeSpanOpener)
            else if c = opener then
              (if \<not> allowNesting then - 1
               else FindClosure_loop bs opener closure codeSpan allowNesting (i + 1)
                      (opened + 1) codeSpanOpener)
            else FindClosure_loop bs opener closure codeSpan allowNesting (i + 1) opened
                   codeSpanOpener)
         else FindClosure_loop bs opener closure codeSpan allowNesting (i + 1) opened
                codeSpanOpener)
      else - 1)"
  by pat_completeness auto
termination
  by (relation "measure (\<lambda>(bs, opener, closure, codeSpan, allowNesting, i, opened, cso).
                   nat (len bs - i))")
    (auto dest!: backtick_run_ge)

definition FindClosure :: "byte list \<Rightarrow> byte \<Rightarrow> byte \<Rightarrow> bool \<Rightarrow> bool \<Rightarrow> int" where
  "FindClosure bs opener closure codeSpan allowNesting =
     FindClosure_loop bs opener closure codeSpan allowNesting 0 1 0"

section \<open>Attribute parsing\<close>

text \<open>
  An attribute record \<^verbatim>\<open>[4]int\<close>:
  \<open>(name_start, name_stop, value_start, value_stop)\<close>.
\<close>

type_synonym attr_index = "int \<times> int \<times> int \<times> int"

lemma skip_while_ge: "i \<le> skip_while p b i"
proof (induction p b i rule: skip_while.induct)
  case (1 p b i)
  then show ?case by (cases "i < len b \<and> p (idx b i)") force+
qed

declare skip_while.simps [simp del]

text \<open>
  The quoted value of \<^verbatim>\<open>FindHTMLAttributeIndex\<close>: the source has the same code twice,
  for the double and for the single quote \<open>q\<close>. \<open>i\<close> is the index after the opening
  quote, \<open>r0\<close> and \<open>r1\<close> the name offsets found before.
\<close>

definition quoted_value ::
  "byte list \<Rightarrow> bool \<Rightarrow> byte \<Rightarrow> int \<Rightarrow> int \<Rightarrow> int \<Rightarrow> attr_index \<times> int" where
  "quoted_value b canEscapeQuotes q r0 r1 i =
     (let l = len b; r2 = i in
      if canEscapeQuotes then
        (let pos = FindClosure (subslice b i l) q q False False in
         if pos < 0 then ((- 1, - 1, - 1, - 1), 0)
         else ((r0, r1, r2, pos + i), 1))
      else
        (let i = skip_while (\<lambda>c. c \<noteq> q) b i; r3 = i in
         if r2 = r3 \<or> i = l \<and> idx b (l - 1) \<noteq> q then ((- 1, - 1, - 1, - 1), 0)
         else ((r0, r1, r2, r3), 1)))"

definition FindHTMLAttributeIndex :: "byte list \<Rightarrow> bool \<Rightarrow> attr_index \<times> int" where
  "FindHTMLAttributeIndex b canEscapeQuotes =
     (let l = len b; i = skip_while IsSpace b 0 in
      if i \<ge> l then ((- 1, - 1, - 1, - 1), 0)
      else
        (let c = byte_val (idx b i) in
         if \<not> ((c \<ge> byte_val CHR ''a'' \<and> c \<le> byte_val CHR ''z'')
                \<or> (c \<ge> byte_val CHR ''A'' \<and> c \<le> byte_val CHR ''Z'')
                \<or> c = byte_val CHR ''_'' \<or> c = byte_val CHR '':'')
         then ((- 1, - 1, - 1, - 1), 0)
         else
           (let r0 = i;
                i = skip_while (\<lambda>d. let c = byte_val d in
                       (c \<ge> byte_val CHR ''a'' \<and> c \<le> byte_val CHR ''z'')
                       \<or> (c \<ge> byte_val CHR ''A'' \<and> c \<le> byte_val CHR ''Z'')
                       \<or> (c \<ge> byte_val CHR ''0'' \<and> c \<le> byte_val CHR ''9'')
                       \<or> c = byte_val CHR ''_'' \<or> c = byte_val CHR '':''
                       \<or> c = byte_val CHR ''.'' \<or> c = byte_val CHR ''-'') b i;
                r1 = i;
                i = skip_while IsSpace b i in
            if i \<ge> l then ((- 1, - 1, - 1, - 1), 0)
            else if idx b i \<noteq> CHR ''='' then ((- 1, - 1, - 1, - 1), 0)
            else
              (let i = skip_while IsSpace b (i + 1) in
               if i \<ge> l then ((- 1, - 1, - 1, - 1), 0)
               else if idx b i = dquote then quoted_value b canEscapeQuotes dquote r0 r1 (i + 1)
               else if idx b i = squote then quoted_value b canEscapeQuotes squote r0 r1 (i + 1)
               else
                 (let r2 = i;
                      i = skip_while (\<lambda>d. let c = byte_val d in
                             \<not> (d = backslash \<or> d = dquote \<or> d = squote
                                \<or> d = CHR ''='' \<or> d = CHR ''<'' \<or> d = CHR ''>'' \<or> d = backtick
                                \<or> d = CHR ''{'' \<or> d = CHR ''}''
                                \<or> (c \<ge> 0 \<and> c \<le> 0x20))) b i;
                      r3 = i in
                  if r2 = r3 then ((- 1, - 1, - 1, - 1), 0)
                  else ((r0, r1, r2, r3), 0))))))"

definition FindAttributeIndex :: "byte list \<Rightarrow> bool \<Rightarrow> attr_index \<times> int" where
  "FindAttributeIndex b canEscapeQuotes =
     (let l = len b; i = skip_while IsSpace b 0 in
      if i \<ge> l then ((- 1, - 1, - 1, - 1), 0)
      else
        (let c = idx b i in
         if c = CHR ''#'' \<or> c = CHR ''.'' then
           (let r0 = i; i = i + 1; r1 = i; r2 = i;
                i = skip_while (\<lambda>d. \<not> IsSpace d
                       \<and> (\<not> IsPunct d \<or> d = CHR ''_'' \<or> d = CHR ''-'')) b i;
                r3 = i in
            ((r0, r1, r2, r3), 0))
         else FindHTMLAttributeIndex b canEscapeQuotes))"

lemma quoted_value_progress:
  "quoted_value b e q r0 r1 i = ((a0, a1, a2, a3), skip) \<Longrightarrow> 0 \<le> a0 \<Longrightarrow> i \<le> a3 \<and> skip = 1"
  using skip_while_ge [of i "\<lambda>c. c \<noteq> q" b]
  by (auto simp add: quoted_value_def Let_def split: if_splits)

lemma FindHTMLAttributeIndex_progress:
  assumes "FindHTMLAttributeIndex b e = ((a0, a1, a2, a3), skip)" and "0 \<le> a0"
  shows "1 \<le> a3 \<and> 0 \<le> skip"
proof -
  define i0 where "i0 = skip_while IsSpace b 0"
  have i0: "0 \<le> i0" unfolding i0_def by (rule skip_while_ge)
  have ge: "\<And>p j. j \<le> skip_while p b j" by (rule skip_while_ge)
  have chain: "\<And>p q r j. j + 1 \<le> skip_while r b (skip_while q b (skip_while p b j) + 1)"
    by (meson ge add_mono order_refl order_trans)
  from assms show ?thesis
    unfolding FindHTMLAttributeIndex_def Let_def i0_def [symmetric]
    apply (simp split: if_splits)
      apply (drule quoted_value_progress)
       apply simp
    using chain [of i0] ge i0 apply (smt (verit, best))
     apply (drule quoted_value_progress)
      apply simp
    using chain [of i0] ge i0 apply (smt (verit, best))
    using chain [of i0] ge i0 apply (smt (verit, best))
    done
qed

lemma FindAttributeIndex_progress:
  assumes "((a0, a1, a2, a3), skip) = FindAttributeIndex b e" and "\<not> a0 < 0"
  shows "1 \<le> a3 \<and> 0 \<le> skip"
proof -
  define i0 where "i0 = skip_while IsSpace b 0"
  have i0: "0 \<le> i0" unfolding i0_def by (rule skip_while_ge)
  show ?thesis
  proof (cases "i0 < len b \<and> idx b i0 \<noteq> CHR ''#'' \<and> idx b i0 \<noteq> CHR ''.''")
    case True
    with assms(1) have "FindHTMLAttributeIndex b e = ((a0, a1, a2, a3), skip)"
      by (simp add: FindAttributeIndex_def Let_def i0_def)
    from FindHTMLAttributeIndex_progress [OF this] assms(2) show ?thesis by simp
  next
    case False
    define p where "p = (\<lambda>d. \<not> IsSpace d \<and> (\<not> IsPunct d \<or> d = CHR ''_'' \<or> d = CHR ''-''))"
    from False assms have "a3 = skip_while p b (i0 + 1) \<and> skip = 0"
      by (auto simp add: FindAttributeIndex_def Let_def i0_def p_def split: if_splits)
    with skip_while_ge [of "i0 + 1" p b] i0 show ?thesis by simp
  qed
qed

section \<open>FindAttributeIndiciesReverse\<close>

text \<open>
  The first loop after the label \<^verbatim>\<open>retry\<close>: from \<open>i\<close> it looks for an unescaped \<open>{\<close> and
  returns the new \<open>i\<close> and \<open>as\<close> (\<open>-1\<close> when the window ends first).
\<close>

function find_open :: "byte list \<Rightarrow> int \<Rightarrow> int \<times> int" where
  "find_open b i =
     (if i < len b then
        (if IsEscapedPunctuation b i then find_open b (i + 2)
         else if idx b i = CHR ''{'' then (i + 1, i + 1)
         else find_open b (i + 1))
      else (i, - 1))"
  by pat_completeness auto
termination
  by (relation "measure (\<lambda>(b, i). nat (len b - i))") auto

text \<open>
  The second loop: it applies \<^verbatim>\<open>FindAttributeIndex\<close> to \<^verbatim>\<open>b[as:]\<close> until no token is
  found, and returns \<open>as\<close>, \<open>i\<close> and \<open>result\<close> as the loop leaves them. A \<^verbatim>\<open>nil\<close>
  result is the empty list: the source makes \<open>result\<close> non-nil only to append to it.
\<close>

function attr_loop ::
  "byte list \<Rightarrow> bool \<Rightarrow> int \<Rightarrow> int \<Rightarrow> attr_index list \<Rightarrow> int \<times> int \<times> attr_index list" where
  "attr_loop b canEscapeQuotes as i result =
     (if as < len b then
        (case FindAttributeIndex (subslice b as (len b)) canEscapeQuotes of
           ((a0, a1, a2, a3), skip) \<Rightarrow>
             if a0 < 0 then (as, i, result)
             else attr_loop b canEscapeQuotes (as + a3 + skip) (as + a3)
                    (result @ [(as + a0, as + a1, as + a2, as + a3)]))
      else (as, i, result))"
  by pat_completeness auto
termination
  by (relation "measure (\<lambda>(b, e, as, i, result). nat (len b - as))")
    (auto dest!: FindAttributeIndex_progress)

declare find_open.simps [simp del]
declare attr_loop.simps [simp del]

lemma find_open_found:
  "(i1, as) = find_open b i \<Longrightarrow> \<not> as < 0 \<Longrightarrow> i < i1 \<and> i < len b \<and> as = i1"
proof (induction b i rule: find_open.induct)
  case (1 b i)
  show ?case
  proof (cases "i < len b")
    case False
    with "1.prems" show ?thesis by (simp add: find_open.simps [of b i])
  next
    case True
    note lt = this
    show ?thesis
    proof (cases "IsEscapedPunctuation b i")
      case True
      with lt "1.prems" have "(i1, as) = find_open b (i + 2)"
        by (simp add: find_open.simps [of b i])
      from "1.IH"(1) [OF lt True this "1.prems"(2)] lt show ?thesis by simp
    next
      case False
      note ne = this
      show ?thesis
      proof (cases "idx b i = CHR ''{''")
        case True
        with lt ne "1.prems" show ?thesis by (simp add: find_open.simps [of b i])
      next
        case False
        with lt ne "1.prems" have "(i1, as) = find_open b (i + 1)"
          by (simp add: find_open.simps [of b i])
        from "1.IH"(2) [OF lt ne False this "1.prems"(2)] lt show ?thesis by simp
      qed
    qed
  qed
qed

lemma attr_loop_i:
  "(as1, i2, r1) = attr_loop b e as i r \<Longrightarrow> i \<le> as \<Longrightarrow> i \<le> i2"
proof (induction b e as i r rule: attr_loop.induct)
  case (1 b e as i r)
  show ?case
  proof (cases "as < len b")
    case False
    with "1.prems" show ?thesis by (simp add: attr_loop.simps [of b e as i r])
  next
    case True
    obtain a0 a1 a2 a3 skip where
      fa: "((a0, a1, a2, a3), skip) = FindAttributeIndex (subslice b as (len b)) e"
      by (metis surj_pair)
    show ?thesis
    proof (cases "a0 < 0")
      case True
      with \<open>as < len b\<close> fa [symmetric] "1.prems" show ?thesis
        by (simp add: attr_loop.simps [of b e as i r])
    next
      case False
      from FindAttributeIndex_progress [OF fa False] have pr: "1 \<le> a3" "0 \<le> skip" by simp_all
      from \<open>as < len b\<close> fa [symmetric] False "1.prems"(1)
      have eq: "(as1, i2, r1) = attr_loop b e (as + a3 + skip) (as + a3)
                  (r @ [(as + a0, as + a1, as + a2, as + a3)])"
        by (simp add: attr_loop.simps [of b e as i r])
      have "as + a3 \<le> i2"
        by (rule "1.IH" [OF \<open>as < len b\<close> fa refl refl refl False eq]) (use pr in simp)
      with pr "1.prems"(2) show ?thesis by simp
    qed
  qed
qed

lemma retry_progress:
  assumes "(i1, as) = find_open b i" and "\<not> as < 0"
    and "(as1, i2, r) = attr_loop b e as i1 []"
  shows "i < i2 \<and> i < len b"
proof -
  from find_open_found [OF assms(1,2)] have a: "i < i1" "i < len b" "as = i1" by simp_all
  from attr_loop_i [OF assms(3)] a have "i1 \<le> i2" by simp
  with a show ?thesis by simp
qed

text \<open>
  \<^verbatim>\<open>FindAttributeIndiciesReverse\<close> from the label \<^verbatim>\<open>retry\<close> on, with the value \<open>i\<close> has
  there. The read \<^verbatim>\<open>b[as]\<close> after the second loop has no bounds check in the source.
\<close>

function FindAttributeIndiciesReverse_retry ::
  "byte list \<Rightarrow> bool \<Rightarrow> int \<Rightarrow> panic + attr_index list" where
  "FindAttributeIndiciesReverse_retry b canEscapeQuotes i =
     (case find_open b i of
        (i1, as) \<Rightarrow>
          if as < 0 then Inr []
          else
            (case attr_loop b canEscapeQuotes as i1 [] of
               (as1, i2, result) \<Rightarrow>
                 if \<not> as1 < len b then Inl IndexOutOfRange
                 else if idx b as1 = CHR ''}''
                         \<and> (as1 > len b - 2 \<or> IsBlank (subslice b as1 (len b)))
                 then Inr result
                 else FindAttributeIndiciesReverse_retry b canEscapeQuotes i2))"
  by pat_completeness auto
termination
  by (relation "measure (\<lambda>(b, e, i). nat (len b - i))") (auto dest: retry_progress)

declare FindAttributeIndiciesReverse_retry.simps [simp del]

definition FindAttributeIndiciesReverse :: "byte list \<Rightarrow> bool \<Rightarrow> panic + attr_index list" where
  "FindAttributeIndiciesReverse b canEscapeQuotes =
     FindAttributeIndiciesReverse_retry b canEscapeQuotes 0"

section \<open>UnescapePunctuations\<close>

function UnescapePunctuations_loop ::
  "byte list \<Rightarrow> int \<Rightarrow> int \<Rightarrow> CopyOnWriteBuffer \<Rightarrow> int \<times> CopyOnWriteBuffer" where
  "UnescapePunctuations_loop source i n cob =
     (let limit = len source in
      if i < limit then
        (let c = idx source i in
         if i < limit - 1 \<and> c = backslash \<and> IsPunct (idx source (i + 1)) then
           UnescapePunctuations_loop source (i + 2) (i + 2)
             (WriteByte (Write cob (subslice source n i)) (idx source (i + 1)))
         else UnescapePunctuations_loop source (i + 1) n cob)
      else (n, cob))"
  by pat_completeness auto
termination
  by (relation "measure (\<lambda>(source, i, n, cob). nat (len source - i))") auto

declare UnescapePunctuations_loop.simps [simp del]

definition UnescapePunctuations_cob :: "byte list \<Rightarrow> CopyOnWriteBuffer" where
  "UnescapePunctuations_cob source =
     (case UnescapePunctuations_loop source 0 0 (NewCopyOnWriteBuffer source) of
        (n, cob) \<Rightarrow> if IsCopied cob then Write cob (subslice source n (len source)) else cob)"

definition UnescapePunctuations :: "byte list \<Rightarrow> byte list" where
  "UnescapePunctuations source = Bytes (UnescapePunctuations_cob source)"

section \<open>Go's standard library, as ResolveNumericReferences and URLEscape use it\<close>

text \<open>
  \<^verbatim>\<open>strconv.ParseUint(s, base, bitSize)\<close>, for the bases 16 and 0 the code passes. The
  caller drops the error, so the model returns the value alone: \<open>0\<close> on a syntax error,
  the largest value of \<open>bitSize\<close> bits on a range error. With base 0 the base comes from
  the prefix of \<open>s\<close>: a leading \<open>0\<close> that no \<open>b\<close>, \<open>o\<close> or \<open>x\<close> follows means octal,
  and the rest of \<open>s\<close> is read in base 8. The underscores base 0 allows between digits
  are left out: both callers pass runs of digits only.
\<close>

definition lower :: "byte \<Rightarrow> nat" where
  "lower c = byte_val c OR 0x20"

definition digit_of :: "byte \<Rightarrow> nat option" where
  "digit_of c =
     (if byte_val CHR ''0'' \<le> byte_val c \<and> byte_val c \<le> byte_val CHR ''9''
      then Some (byte_val c - byte_val CHR ''0'')
      else if byte_val CHR ''a'' \<le> lower c \<and> lower c \<le> byte_val CHR ''z''
      then Some (lower c - byte_val CHR ''a'' + 10)
      else None)"

fun ParseUint_digits :: "nat \<Rightarrow> nat \<Rightarrow> byte list \<Rightarrow> nat \<Rightarrow> nat" where
  "ParseUint_digits base maxVal [] n = n"
| "ParseUint_digits base maxVal (c # cs) n =
     (case digit_of c of
        None \<Rightarrow> 0
      | Some d \<Rightarrow>
          if d \<ge> base then 0
          else if n \<ge> (2 ^ 64 - 1) div base + 1 then maxVal
          else if n * base + d > maxVal then maxVal
          else ParseUint_digits base maxVal cs (n * base + d))"

definition ParseUint :: "byte list \<Rightarrow> nat \<Rightarrow> nat \<Rightarrow> nat" where
  "ParseUint s base bitSize =
     (if s = [] then 0
      else if base = 0 then
        (if hd s = CHR ''0'' then
           (if length s \<ge> 3 \<and> lower (s ! 1) = byte_val CHR ''b''
            then ParseUint_digits 2 (2 ^ bitSize - 1) (drop 2 s) 0
            else if length s \<ge> 3 \<and> lower (s ! 1) = byte_val CHR ''o''
            then ParseUint_digits 8 (2 ^ bitSize - 1) (drop 2 s) 0
            else if length s \<ge> 3 \<and> lower (s ! 1) = byte_val CHR ''x''
            then ParseUint_digits 16 (2 ^ bitSize - 1) (drop 2 s) 0
            else ParseUint_digits 8 (2 ^ bitSize - 1) (drop 1 s) 0)
         else ParseUint_digits 10 (2 ^ bitSize - 1) s 0)
      else ParseUint_digits base (2 ^ bitSize - 1) s 0)"

text \<open>The conversion \<^verbatim>\<open>rune(v)\<close> of a \<^verbatim>\<open>uint64\<close> to Go's \<^verbatim>\<open>int32\<close>: the low 32 bits, signed.\<close>

definition rune :: "nat \<Rightarrow> int" where
  "rune v = (let w = int (v mod 2 ^ 32) in if w \<ge> 2 ^ 31 then w - 2 ^ 32 else w)"

text \<open>\<^verbatim>\<open>utf8.ValidRune\<close>: a code point up to \<open>U+10FFFF\<close> that is no surrogate.\<close>

definition ValidRune :: "int \<Rightarrow> bool" where
  "ValidRune r = ((0 \<le> r \<and> r < 0xD800) \<or> (0xDFFF < r \<and> r \<le> 0x10FFFF))"

definition ToValidRune :: "int \<Rightarrow> int" where
  "ToValidRune v = (if v = 0 \<or> \<not> ValidRune v then 0xFFFD else v)"

text \<open>
  \<^verbatim>\<open>utf8.EncodeRune(buf, r)\<close>: the bytes it writes, \<^verbatim>\<open>buf[:runeSize]\<close>. A rune that is
  not valid is encoded as \<open>U+FFFD\<close>.
\<close>

definition EncodeRune :: "int \<Rightarrow> byte list" where
  "EncodeRune r0 =
     (let r = (if ValidRune r0 then nat r0 else 0xFFFD) in
      if r \<le> 0x7F then [char_of r]
      else if r \<le> 0x7FF then [char_of (0xC0 + r div 64), char_of (0x80 + r mod 64)]
      else if r \<le> 0xFFFF then
        [char_of (0xE0 + r div 4096), char_of (0x80 + r div 64 mod 64),
         char_of (0x80 + r mod 64)]
      else
        [char_of (0xF0 + r div 262144), char_of (0x80 + r div 4096 mod 64),
         char_of (0x80 + r div 64 mod 64), char_of (0x80 + r mod 64)])"

text \<open>
  \<^verbatim>\<open>url.QueryEscape\<close>: letters, digits and \<^verbatim>\<open>-_.~\<close> stay, a space becomes \<open>+\<close>, every
  other byte becomes \<open>%\<close> and its two upper-case hex digits.
\<close>

definition upperhex :: "byte list" where
  "upperhex = ''0123456789ABCDEF''"

fun QueryEscape :: "byte list \<Rightarrow> byte list" where
  "QueryEscape [] = []"
| "QueryEscape (c # cs) =
     (if IsAlphaNumeric c \<or> c = CHR ''-'' \<or> c = CHR ''_'' \<or> c = CHR ''.'' \<or> c = CHR ''~''
      then c # QueryEscape cs
      else if c = CHR '' '' then CHR ''+'' # QueryEscape cs
      else CHR ''%'' # upperhex ! (byte_val c div 16) # upperhex ! (byte_val c mod 16)
             # QueryEscape cs)"

section \<open>ResolveNumericReferences\<close>

text \<open>
  Modelled from the spec: \<^verbatim>\<open>BytesToReadOnlyString\<close> and \<^verbatim>\<open>StringToReadOnlyBytes\<close>
  are functions of the package that are not in \<^verbatim>\<open>util.go\<close>. The spec treats text and
  byte windows as the same data, so both are the identity on the bytes.
\<close>

definition BytesToReadOnlyString :: "byte list \<Rightarrow> byte list" where
  "BytesToReadOnlyString b = b"

definition StringToReadOnlyBytes :: "byte list \<Rightarrow> byte list" where
  "StringToReadOnlyBytes s = s"

lemma ReadWhile_loop_ge: "(i1, ok1) = ReadWhile_loop source j hi pred ok \<Longrightarrow> j \<le> i1"
proof (induction source j hi pred ok rule: ReadWhile_loop.induct)
  case (1 source j hi pred ok)
  show ?case
  proof (cases "j < hi \<and> pred (idx source j)")
    case True
    with "1.prems" have "(i1, ok1) = ReadWhile_loop source (j + 1) hi pred True" by simp
    with "1.IH" True show ?thesis by force
  next
    case False
    with "1.prems" show ?thesis by (auto split: if_splits)
  qed
qed

declare ReadWhile_loop.simps [simp del]

lemma ReadWhile_ge: "(i1, ok1) = ReadWhile source (start, limit) pred \<Longrightarrow> start \<le> i1"
  by (simp add: ReadWhile_def ReadWhile_loop_ge)

text \<open>
  The loop of \<^verbatim>\<open>ResolveNumericReferences\<close>. The source reads \<^verbatim>\<open>source[nnext]\<close> before it
  compares \<open>nnext\<close> with \<open>limit\<close>: that read is the panic branch. Where a reference is not
  resolved the code sets \<^verbatim>\<open>i = next - 1\<close> and the loop's \<^verbatim>\<open>i++\<close> goes on at \<open>next\<close>.
\<close>

function ResolveNumericReferences_loop ::
  "byte list \<Rightarrow> int \<Rightarrow> int \<Rightarrow> CopyOnWriteBuffer \<Rightarrow> panic + int \<times> CopyOnWriteBuffer" where
  "ResolveNumericReferences_loop source i n cob =
     (let limit = len source in
      if i < limit then
        (if idx source i = CHR ''&'' then
           (let pos = i; next = i + 1 in
            if next < limit \<and> idx source next = CHR ''#'' then
              (let nnext = next + 1 in
               if \<not> nnext < limit then Inl IndexOutOfRange
               else
                 (let nc = idx source nnext in
                  if nnext < limit \<and> nc = CHR ''x'' \<or> nc = CHR ''X'' then
                    (let start = nnext + 1 in
                     case ReadWhile source (start, limit) IsHexDecimal of
                       (i1, ok) \<Rightarrow>
                         if ok \<and> i1 < limit \<and> idx source i1 = CHR '';'' then
                           (let v = ParseUint (BytesToReadOnlyString (subslice source start i1)) 16 32;
                                cob = Write cob (subslice source n pos);
                                cob = Write cob (EncodeRune (ToValidRune (rune v)))
                            in ResolveNumericReferences_loop source (i1 + 1) (i1 + 1) cob)
                         else ResolveNumericReferences_loop source next n cob)
                  else if byte_val nc \<ge> byte_val CHR ''0'' \<and> byte_val nc \<le> byte_val CHR ''9'' then
                    (let start = nnext in
                     case ReadWhile source (start, limit) IsNumeric of
                       (i1, ok) \<Rightarrow>
                         if ok \<and> i1 < limit \<and> i1 - start < 8 \<and> idx source i1 = CHR '';'' then
                           (let v = ParseUint (BytesToReadOnlyString (subslice source start i1)) 0 32;
                                cob = Write cob (subslice source n pos);
                                cob = Write cob (EncodeRune (ToValidRune (rune v)))
                            in ResolveNumericReferences_loop source (i1 + 1) (i1 + 1) cob)
                         else ResolveNumericReferences_loop source next n cob)
                  else ResolveNumericReferences_loop source next n cob))
            else ResolveNumericReferences_loop source next n cob)
         else ResolveNumericReferences_loop source (i + 1) n cob)
      else Inr (n, cob))"
  by pat_completeness auto
termination
  by (relation "measure (\<lambda>(source, i, n, cob). nat (len source - i))")
    (auto dest!: ReadWhile_ge)

declare ResolveNumericReferences_loop.simps [simp del]

definition ResolveNumericReferences_cob :: "byte list \<Rightarrow> panic + CopyOnWriteBuffer" where
  "ResolveNumericReferences_cob source =
     (case ResolveNumericReferences_loop source 0 0 (NewCopyOnWriteBuffer source) of
        Inl e \<Rightarrow> Inl e
      | Inr (n, cob) \<Rightarrow>
          Inr (if IsCopied cob then Write cob (subslice source n (len source)) else cob))"

definition ResolveNumericReferences :: "byte list \<Rightarrow> panic + byte list" where
  "ResolveNumericReferences source = map_sum id Bytes (ResolveNumericReferences_cob source)"

section \<open>ResolveEntityNames\<close>

text \<open>
  Modelled from the spec: \<^verbatim>\<open>LookUpHTML5EntityByName\<close> and its table are not in
  \<^verbatim>\<open>util.go\<close>; the spec calls them an external lookup service from an entity name to
  its characters. The lookup is the parameter \<open>lookup\<close>.
\<close>

function ResolveEntityNames_loop ::
  "(byte list \<Rightarrow> byte list option) \<Rightarrow> byte list \<Rightarrow> int \<Rightarrow> int \<Rightarrow> CopyOnWriteBuffer
     \<Rightarrow> int \<times> CopyOnWriteBuffer" where
  "ResolveEntityNames_loop lookup source i n cob =
     (let limit = len source in
      if i < limit then
        (if idx source i = CHR ''&'' then
           (let pos = i; next = i + 1 in
            if \<not> (next < limit \<and> idx source next = CHR ''#'') then
              (let start = next in
               case ReadWhile source (start, limit) IsAlphaNumeric of
                 (i1, ok) \<Rightarrow>
                   if ok \<and> i1 < limit \<and> idx source i1 = CHR '';'' then
                     (case lookup (BytesToReadOnlyString (subslice source start i1)) of
                        Some characters \<Rightarrow>
                          ResolveEntityNames_loop lookup source (i1 + 1) (i1 + 1)
                            (Write (Write cob (subslice source n pos)) characters)
                      | None \<Rightarrow> ResolveEntityNames_loop lookup source next n cob)
                   else ResolveEntityNames_loop lookup source next n cob)
            else ResolveEntityNames_loop lookup source next n cob)
         else ResolveEntityNames_loop lookup source (i + 1) n cob)
      else (n, cob))"
  by pat_completeness auto
termination
  by (relation "measure (\<lambda>(lookup, source, i, n, cob). nat (len source - i))")
    (auto dest!: ReadWhile_ge)

declare ResolveEntityNames_loop.simps [simp del]

definition ResolveEntityNames_cob ::
  "(byte list \<Rightarrow> byte list option) \<Rightarrow> byte list \<Rightarrow> CopyOnWriteBuffer" where
  "ResolveEntityNames_cob lookup source =
     (case ResolveEntityNames_loop lookup source 0 0 (NewCopyOnWriteBuffer source) of
        (n, cob) \<Rightarrow> if IsCopied cob then Write cob (subslice source n (len source)) else cob)"

definition ResolveEntityNames :: "(byte list \<Rightarrow> byte list option) \<Rightarrow> byte list \<Rightarrow> byte list" where
  "ResolveEntityNames lookup source = Bytes (ResolveEntityNames_cob lookup source)"

section \<open>URLEscape\<close>

definition htmlSpace :: "byte list" where
  "htmlSpace = ''%20''"

lemma byte_val_less: "byte_val c < 256"
  unfolding byte_val_def by (metis of_char_mod_256 mod_less_divisor zero_less_numeral)

lemma utf8len_pos: "0 < utf8lenTable ! byte_val c"
proof -
  have "list_all (\<lambda>x. 0 < x) utf8lenTable" by (simp add: utf8lenTable_def)
  moreover have "length utf8lenTable = 256" by (simp add: utf8lenTable_def)
  ultimately show ?thesis using byte_val_less [of c] by (simp add: list_all_length)
qed

text \<open>
  The loop of \<^verbatim>\<open>URLEscape\<close>. The test for an escaped triplet reads \<^verbatim>\<open>v[i+1]\<close> twice, as
  the source does. The slice \<^verbatim>\<open>v[i : i+int(u8len)]\<close> panics when it ends after the window;
  the window's capacity is taken to be its length.
\<close>

function URLEscape_loop ::
  "byte list \<Rightarrow> int \<Rightarrow> int \<Rightarrow> CopyOnWriteBuffer \<Rightarrow> panic + int \<times> CopyOnWriteBuffer" where
  "URLEscape_loop v i n cob =
     (let limit = len v in
      if i < limit then
        (let c = idx v i in
         if urlEscapeTable ! byte_val c = 1 then URLEscape_loop v (i + 1) n cob
         else if c = CHR ''%'' \<and> i + 2 < limit \<and> IsHexDecimal (idx v (i + 1))
                 \<and> IsHexDecimal (idx v (i + 1))
         then URLEscape_loop v (i + 3) n cob
         else
           (let u8len = utf8lenTable ! byte_val c in
            if u8len = 99 then URLEscape_loop v (i + 1) n cob
            else if c = CHR '' '' then
              URLEscape_loop v (i + 1) (i + 1) (Write (Write cob (subslice v n i)) htmlSpace)
            else if i + u8len > limit then Inl IndexOutOfRange
            else
              URLEscape_loop v (i + u8len) (i + u8len)
                (Write (Write cob (subslice v n i))
                   (StringToReadOnlyBytes (QueryEscape (subslice v i (i + u8len)))))))
      else Inr (n, cob))"
  by pat_completeness auto
termination
  by (relation "measure (\<lambda>(v, i, n, cob). nat (len v - i))")
    (use utf8len_pos in \<open>auto simp add: Let_def\<close>)

declare URLEscape_loop.simps [simp del]

definition URLEscape_cob ::
  "(byte list \<Rightarrow> byte list option) \<Rightarrow> byte list \<Rightarrow> bool \<Rightarrow> panic + CopyOnWriteBuffer" where
  "URLEscape_cob lookup v0 resolveReference =
     (case (if resolveReference then
              (case ResolveNumericReferences (UnescapePunctuations v0) of
                 Inl e \<Rightarrow> Inl e
               | Inr v2 \<Rightarrow> Inr (ResolveEntityNames lookup v2))
            else Inr v0) of
        Inl e \<Rightarrow> Inl e
      | Inr v \<Rightarrow>
          (case URLEscape_loop v 0 0 (NewCopyOnWriteBuffer v) of
             Inl e \<Rightarrow> Inl e
           | Inr (n, cob) \<Rightarrow>
               Inr (if IsCopied cob then Write cob (subslice v n (len v)) else cob)))"

definition URLEscape ::
  "(byte list \<Rightarrow> byte list option) \<Rightarrow> byte list \<Rightarrow> bool \<Rightarrow> panic + byte list" where
  "URLEscape lookup v resolveReference = map_sum id Bytes (URLEscape_cob lookup v resolveReference)"

section \<open>FindURLIndex\<close>

definition FindURLIndex :: "byte list \<Rightarrow> int" where
  "FindURLIndex b =
     (let i = 0 in
      if \<not> (len b > 0 \<and> urlTable ! byte_val (idx b i) AND 7 = 7) then - 1
      else
        (let i = skip_while (\<lambda>c. \<not> urlTable ! byte_val c AND 4 \<noteq> 4) b (i + 1) in
         if i = 1 \<or> i > 33 \<or> i \<ge> len b then - 1
         else if idx b i \<noteq> CHR '':'' then - 1
         else skip_while (\<lambda>c. \<not> urlTable ! byte_val c AND 1 \<noteq> 1) b (i + 1)))"

section \<open>PrioritizedSlice\<close>

record 'a PrioritizedValue =
  Value :: 'a
  Priority :: int

type_synonym 'a PrioritizedSlice = "'a PrioritizedValue list"



text \<open>The loop of \<^verbatim>\<open>Remove\<close>: the final \<open>i\<close> and \<open>found\<close>.\<close>

function Remove_loop :: "'a PrioritizedSlice \<Rightarrow> 'a \<Rightarrow> int \<Rightarrow> int \<times> bool" where
  "Remove_loop s v i =
     (if i < len s then
        (if Value (idx s i) = v then (i, True) else Remove_loop s v (i + 1))
      else (i, False))"
  by pat_completeness auto
termination
  by (relation "measure (\<lambda>(s, v, i). nat (len s - i))") auto

declare Remove_loop.simps [simp del]

text \<open>\<^verbatim>\<open>append(s[:i], s[i+1:]...)\<close> is the slice returned.\<close>

definition Remove :: "'a PrioritizedSlice \<Rightarrow> 'a \<Rightarrow> 'a PrioritizedSlice" where
  "Remove s v =
     (case Remove_loop s v 0 of
        (i, found) \<Rightarrow>
          if \<not> found then s else subslice s 0 i @ subslice s (i + 1) (len s))"

section \<open>Properties the claims speak of\<close>




section \<open>Evaluation on concrete windows\<close>

lemmas eval_simps =
  len_def idx_def subslice_def byte_val_def Let_def
  IsPunct_def IsSpace_def punctTable_def spaceTable_def
  skip_while.simps backtick_run.simps find_open.simps attr_loop.simps
  FindClosure_def FindAttributeIndex_def FindHTMLAttributeIndex_def quoted_value_def
  FindAttributeIndiciesReverse_def FindAttributeIndiciesReverse_retry.simps
  IsEscapedPunctuation_def
  UnescapePunctuations_loop.simps UnescapePunctuations_cob_def UnescapePunctuations_def
  NewCopyOnWriteBuffer_def Write_def WriteByte_def IsCopied_def Bytes_def
  lower_def digit_of_def ParseUint_def rune_def ValidRune_def ToValidRune_def EncodeRune_def
  upperhex_def IsAlphaNumeric_def IsNumeric_def IsHexDecimal_def
  BytesToReadOnlyString_def StringToReadOnlyBytes_def ReadWhile_def ReadWhile_loop.simps
  ResolveNumericReferences_loop.simps ResolveNumericReferences_cob_def ResolveNumericReferences_def
  char_of_def bit_0
  ResolveEntityNames_loop.simps ResolveEntityNames_cob_def ResolveEntityNames_def
  htmlSpace_def urlEscapeTable_def utf8lenTable_def URLEscape_loop.simps URLEscape_cob_def
  URLEscape_def urlTable_def FindURLIndex_def Remove_loop.simps Remove_def
  EscapeHTML_def EscapeHTML_cob_def htmlEscapeTable_def

text \<open>The examples of the spec that the code meets.\<close>

lemma FindClosure_nesting_example:
  "FindClosure ''a(b)c)d'' CHR ''('' CHR '')'' False True = 5"
  by (simp add: eval_simps)

lemma FindClosure_escaped_example:
  "FindClosure (''a'' @ backslash # '')b)'') CHR ''('' CHR '')'' False True = 4"
  by (simp add: eval_simps)

lemma FindAttributeIndiciesReverse_example:
  "FindAttributeIndiciesReverse (''{#id .cls key='' @ dquote # ''v a'' @ dquote # ''}'') False
     = Inr [(1, 2, 2, 4), (5, 6, 6, 9), (10, 13, 15, 18)]"
  by (simp add: eval_simps)

lemma ResolveNumericReferences_examples:
  "ResolveNumericReferences ''&#65;'' = Inr ''A''"
  "ResolveNumericReferences ''&#x41;'' = Inr ''A''"
  "ResolveNumericReferences ''&#0;'' = Inr [CHR 0xEF, CHR 0xBF, CHR 0xBD]"
  by (simp_all add: eval_simps)

lemma URLEscape_example:
  "URLEscape lookup ''http://a.com/x y%41'' False = Inr ''http://a.com/x%20y%41''"
  by (simp add: eval_simps)

lemma FindURLIndex_examples:
  "FindURLIndex ''http://example.com/path>'' = 23"
  "FindURLIndex ''ab:cd'' = 5"
  "FindURLIndex ''aaaaaaaaaaaaaaaaaaaaaaaaaaaaaaaaaa:x'' = - 1"
  by (simp_all add: eval_simps)

section \<open>Indexing lemmas\<close>


lemma idx_append_at: "idx (xs @ y # ys) (len xs) = y"
  by (simp add: idx_def len_def)




section \<open>Runs of bytes under the scanning loops\<close>

lemma len_Nil: "len [] = 0" by (simp add: len_def)

lemma len_nonneg: "0 \<le> len xs" by (simp add: len_def)

lemma len_append: "len (xs @ ys) = len xs + len ys" by (simp add: len_def)

lemma len_Cons: "len (x # xs) = 1 + len xs" by (simp add: len_def)

lemma skip_while_run:
  assumes "\<forall>d\<in>set run. p d" and "rest = [] \<or> \<not> p (hd rest)"
  shows "skip_while p (pre @ run @ rest) (len pre) = len pre + len run"
  using assms
proof (induction run arbitrary: pre)
  case Nil
  show ?case
  proof (cases rest)
    case Nil
    then show ?thesis by (subst skip_while.simps) (simp add: len_def)
  next
    case (Cons r rs)
    with Nil.prems have "\<not> p r" by simp
    with Cons show ?thesis
      by (subst skip_while.simps) (simp add: idx_append_at len_Nil)
  qed
next
  case (Cons d run)
  have "skip_while p ((pre @ [d]) @ run @ rest) (len (pre @ [d])) = len (pre @ [d]) + len run"
    by (rule Cons.IH) (use Cons.prems in simp_all)
  then have rec: "skip_while p (pre @ d # run @ rest) (len pre + 1) = len pre + 1 + len run"
    by (simp add: len_def ac_simps)
  have "p (idx (pre @ d # run @ rest) (len pre))" using Cons.prems by (simp add: idx_append_at)
  moreover have "len pre < len (pre @ d # run @ rest)" by (simp add: len_def)
  ultimately show ?case using rec
    by (subst skip_while.simps) (simp add: len_Cons ac_simps)
qed

section \<open>Windows the transforming loops leave alone\<close>












section \<open>The claims\<close>

text \<open>
  C1. The claim: every exported scanning or resolving operation, in particular
  \<^verbatim>\<open>ResolveNumericReferences\<close> and \<^verbatim>\<open>FindAttributeIndiciesReverse\<close>, returns a defined
  result on every input and never reads out of bounds, also on text ending in \<open>&#\<close> or
  holding an unclosed \<open>{\<close>. The code does not: on \<open>&#\<close> it reads \<^verbatim>\<open>source[2]\<close> of a
  window of length 2, and on \<open>{\<close> and \<open>{#id\<close> it reads \<^verbatim>\<open>b[as]\<close> with \<open>as\<close> the length of
  the window. Both reads panic.
\<close>

theorem truncated_input_panics:
  "ResolveNumericReferences ''&#'' = Inl IndexOutOfRange
   \<and> FindAttributeIndiciesReverse ''{'' canEscapeQuotes = Inl IndexOutOfRange
   \<and> FindAttributeIndiciesReverse ''{#id'' canEscapeQuotes = Inl IndexOutOfRange"
  by (simp add: eval_simps)

text \<open>
  C2. The claim: with code spans respected, \<^verbatim>\<open>FindClosure\<close> on the window
  \<^verbatim>\<open>`a)b`)\<close> skips the \<open>)\<close> inside the code span and returns the offset 5 of the last
  \<open>)\<close>. The code returns \<open>-1\<close>: the loop over the closing backticks stops on the byte
  after them, and the \<^verbatim>\<open>i++\<close> that ends the loop body steps over that byte, the \<open>)\<close>.
\<close>

theorem FindClosure_skips_byte_after_code_span:
  "FindClosure (backtick # ''a)b'' @ backtick # '')'') CHR ''('' CHR '')'' True allowNesting = - 1"
  by (simp add: eval_simps)

text \<open>
  C3. The claim: a decimal reference of 1 to 7 digits is decoded in base 10, leading
  zeros included, so that \<open>&#065;\<close> gives \<open>A\<close>. The code passes base 0 to
  \<^verbatim>\<open>strconv.ParseUint\<close>, which reads a run with a leading zero as octal: \<open>&#065;\<close> gives
  the character 53, \<open>5\<close>, and \<open>&#08;\<close>, no octal number, gives \<open>U+FFFD\<close>.
\<close>

theorem leading_zero_reference_is_octal:
  "ResolveNumericReferences ''&#065;'' = Inr ''5''
   \<and> ResolveNumericReferences ''&#08;'' = Inr [CHR 0xEF, CHR 0xBF, CHR 0xBD]"
  by (simp add: eval_simps)

text \<open>
  C4. The claim: \<^verbatim>\<open>FindAttributeIndiciesReverse\<close> succeeds when the scan has reached a
  \<open>}\<close> that is the last byte of the window or is followed by whitespace only. The code
  tests \<^verbatim>\<open>IsBlank(b[as:])\<close> on a slice that starts with the \<open>}\<close> itself, which is never
  blank: with a space after the \<open>}\<close> the records are dropped and nothing is returned.
\<close>

theorem trailing_space_after_brace_fails:
  "FindAttributeIndiciesReverse ''{#id}'' canEscapeQuotes = Inr [(1, 2, 2, 4)]
   \<and> FindAttributeIndiciesReverse ''{#id} '' canEscapeQuotes = Inr []"
  by (simp add: eval_simps)

text \<open>
  C5. The claim: \<^verbatim>\<open>FindURLIndex\<close> returns \<open>-1\<close> for every scheme longer than 32
  characters. The code rejects a scheme only from 34 characters on (\<^verbatim>\<open>i > 33\<close>): a scheme
  of 33 letters is accepted.
\<close>

theorem FindURLIndex_accepts_33:
  "FindURLIndex ''aaaaaaaaaaaaaaaaaaaaaaaaaaaaaaaaa:x'' = 35"
  by (simp add: eval_simps)

text \<open>
  C6. The claim: \<^verbatim>\<open>URLEscape\<close> passes a \<open>%\<close> through only when two hex digits follow
  it; after \<open>%\<close> and one hex digit, a byte that is no hex digit is still transformed.
  The code tests \<^verbatim>\<open>v[i+1]\<close> twice and never \<^verbatim>\<open>v[i+2]\<close>: in \<open>%4\<close> followed by a space
  the three bytes are passed through and the space is not replaced by \<open>%20\<close>.
\<close>

theorem URLEscape_triplet_second_digit_unchecked:
  "URLEscape lookup ''%4 '' False = Inr ''%4 ''"
  by (simp add: eval_simps)

text \<open>
  C7. The claim: for a \<open>#id\<close> or \<open>.class\<close> token the name offsets of
  \<^verbatim>\<open>FindAttributeIndex\<close> cover the whole token and the value offsets equal the name
  offsets. In the code the name is the sigil alone and the value is the identifier after
  it: for leading whitespace \<open>ws\<close>, a sigil \<open>c\<close>, a run \<open>ident\<close> of bytes that are
  neither whitespace nor punctuation other than \<open>_\<close> and \<open>-\<close>, and a rest that is empty
  or starts with a byte ending the run, the record is
  \<open>(|ws|, |ws| + 1, |ws| + 1, |ws| + 1 + |ident|)\<close> and the skip count is 0.
\<close>

theorem FindAttributeIndex_sigil_token:
  assumes "\<forall>d\<in>set ws. IsSpace d"
    and "c = CHR ''#'' \<or> c = CHR ''.''"
    and "\<forall>d\<in>set ident. \<not> IsSpace d \<and> (\<not> IsPunct d \<or> d = CHR ''_'' \<or> d = CHR ''-'')"
    and "rest = [] \<or> IsSpace (hd rest)
         \<or> (IsPunct (hd rest) \<and> hd rest \<noteq> CHR ''_'' \<and> hd rest \<noteq> CHR ''-'')"
  shows "FindAttributeIndex (ws @ c # ident @ rest) canEscapeQuotes
           = ((len ws, len ws + 1, len ws + 1, len ws + 1 + len ident), 0)"
proof -
  let ?b = "ws @ c # ident @ rest"
  let ?p = "\<lambda>d. \<not> IsSpace d \<and> (\<not> IsPunct d \<or> d = CHR ''_'' \<or> d = CHR ''-'')"
  have nsp: "\<not> IsSpace c" using assms(2) by (auto simp add: IsSpace_def spaceTable_def byte_val_def)
  from skip_while_run [where pre = "[]" and run = ws and rest = "c # ident @ rest" and p = IsSpace]
    assms(1) nsp
  have i0: "skip_while IsSpace ?b 0 = len ws" by (simp add: len_def)
  have "skip_while ?p ((ws @ [c]) @ ident @ rest) (len (ws @ [c])) = len (ws @ [c]) + len ident"
    by (rule skip_while_run) (use assms(3,4) in auto)
  then have i1: "skip_while ?p ?b (len ws + 1) = len ws + 1 + len ident"
    by (simp add: len_def ac_simps)
  have lt: "len ws < len ?b" by (simp add: len_def)
  have at: "idx ?b (len ws) = c" by (simp add: idx_append_at)
  from i0 i1 lt at assms(2) show ?thesis
    by (simp add: FindAttributeIndex_def Let_def)
qed

theorem FindAttributeIndex_sigil_token_witness:
  "FindAttributeIndex '' #my-id .cls'' False = ((1, 2, 2, 7), 0)"
proof -
  have "FindAttributeIndex ('' '' @ CHR ''#'' # ''my-id'' @ '' .cls'') False
          = ((len '' '', len '' '' + 1, len '' '' + 1, len '' '' + 1 + len ''my-id''), 0)"
    by (rule FindAttributeIndex_sigil_token)
      (simp_all add: IsSpace_def IsPunct_def spaceTable_def punctTable_def byte_val_def)
  then show ?thesis by (simp add: len_def)
qed

text \<open>
  On \<open>#id\<close> the record is \<open>(0, 1, 1, 3)\<close>, not the \<open>(0, 3, 0, 3)\<close> of the claim.
\<close>

theorem sigil_name_is_not_whole_token:
  "FindAttributeIndex ''#id'' False = ((0, 1, 1, 3), 0)
   \<and> FindAttributeIndex ''#id'' False \<noteq> ((0, 3, 0, 3), 0)"
  by (simp add: eval_simps)









end
